theory Spec2Isabelle
  imports Main
begin

section \<open>The controller of mlx\_use: built-in actions, dispatch and sequencing\<close>

text \<open>
  A shallow embedding of \<^verbatim>\<open>src/mlx_use/controller/service.py\<close>. Every action of the
  controller is a computation over an explicit world: the record of the calls made to the
  capability provider (click, type\_into, the workspace's launchApplication\_ and
  runningApplications, asyncio.sleep) and of the lines printed. A computation returns
  either a raised exception (\<open>Inl\<close>) or a value (\<open>Inr\<close>), together with the world it leaves.

  Conventions of the embedding:
  \<^item> Python's \<^verbatim>\<open>async\<close>/\<^verbatim>\<open>await\<close> is sequential here: the controller never runs two
    actions at once, so an awaited call is an ordinary call.
  \<^item> The calls to \<^verbatim>\<open>logger\<close> and the timing decorators are left out; \<^verbatim>\<open>print\<close> is kept.
  \<^item> Exceptions are the subclasses of \<^verbatim>\<open>Exception\<close>; signals that derive from
    \<^verbatim>\<open>BaseException\<close> only (KeyboardInterrupt, SystemExit) are not modelled.
  \<^item> A string is a list of bytes; the two glyphs the source prints are their UTF-8 bytes.
\<close>

subsection \<open>Data\<close>

text \<open>A live UI element, identified by its printed form \<^verbatim>\<open>str(element)\<close>.\<close>

type_synonym element = string

text \<open>
  \<^verbatim>\<open>MacUITreeBuilder\<close>: the controller reads one attribute of it, the dictionary
  \<^verbatim>\<open>_element_cache\<close> from integer indices to elements.
\<close>

record MacUITreeBuilder =
  element_cache :: "int \<rightharpoonup> element"

text \<open>
  Modelled from the spec: the declaration of \<^verbatim>\<open>ActionResult\<close> (mlx\_use.agent.views) is
  not part of the source at hand. Its fields are those the spec lists and the controller
  sets by keyword; a field that a call does not set keeps its default.
\<close>

record ActionResult =
  is_done :: bool
  extracted_content :: "string option"
  error :: "string option"
  current_app_pid :: "int option"

definition ActionResult_default :: ActionResult where
  "ActionResult_default =
     \<lparr>is_done = False, extracted_content = None, error = None, current_app_pid = None\<rparr>"

text \<open>
  The exceptions of the model. \<open>ValueError\<close> is Python's; \<open>Exception\<close> stands for any other
  subclass of \<^verbatim>\<open>Exception\<close>; the remaining three are the dispatch-time errors the spec
  names for the registry. Each carries its message.
\<close>

datatype exn =
    ValueError string
  | Exception string
  | UnknownActionError string
  | InvalidParametersError string
  | MissingContextError string

fun str_exn :: "exn \<Rightarrow> string" where
  "str_exn (ValueError m) = m"
| "str_exn (Exception m) = m"
| "str_exn (UnknownActionError m) = m"
| "str_exn (InvalidParametersError m) = m"
| "str_exn (MissingContextError m) = m"

text \<open>A running application, as \<^verbatim>\<open>NSRunningApplication\<close> answers the four queries made.\<close>

record app =
  localizedName :: "string option"
  bundleIdentifier :: "string option"
  bundleURL_path :: "string option"
  processIdentifier :: int

subsection \<open>The world: capability calls and printed lines\<close>

datatype call =
    Click element
  | TypeInto element string bool
  | LaunchApplication string
  | RunningApplications
  | Sleep nat

record world =
  calls :: "call list"
  stdout :: "string list"

text \<open>
  The capability provider is external. What it answers may depend on everything done to
  it so far, so each capability is a function of the calls made before and of its
  arguments; it returns a value or raises.
\<close>

record provider =
  click_answer :: "call list \<Rightarrow> element \<Rightarrow> exn + bool"
  type_into_answer :: "call list \<Rightarrow> element \<Rightarrow> string \<Rightarrow> bool \<Rightarrow> exn + bool"
  launchApplication_answer :: "call list \<Rightarrow> string \<Rightarrow> exn + bool"
  runningApplications_answer :: "call list \<Rightarrow> exn + app list"

type_synonym 'a io = "world \<Rightarrow> (exn + 'a) \<times> world"

definition return :: "'a \<Rightarrow> 'a io" where
  "return x w = (Inr x, w)"

definition raise :: "exn \<Rightarrow> 'a io" where
  "raise e w = (Inl e, w)"

definition bind :: "'a io \<Rightarrow> ('a \<Rightarrow> 'b io) \<Rightarrow> 'b io" where
  "bind m f w = (case m w of (Inl e, w') \<Rightarrow> (Inl e, w') | (Inr x, w') \<Rightarrow> f x w')"

text \<open>\<^verbatim>\<open>try: m  except Exception as e: h(e)\<close>\<close>

definition try_except :: "'a io \<Rightarrow> (exn \<Rightarrow> 'a io) \<Rightarrow> 'a io" where
  "try_except m h w = (case m w of (Inl e, w') \<Rightarrow> h e w' | (Inr x, w') \<Rightarrow> (Inr x, w'))"

definition print :: "string \<Rightarrow> unit io" where
  "print s w = (Inr (), w\<lparr>stdout := stdout w @ [s]\<rparr>)"

definition capability :: "call \<Rightarrow> (call list \<Rightarrow> exn + 'a) \<Rightarrow> 'a io" where
  "capability c answer w = (answer (calls w), w\<lparr>calls := calls w @ [c]\<rparr>)"

definition click :: "provider \<Rightarrow> element \<Rightarrow> bool io" where
  "click prov el = capability (Click el) (\<lambda>h. click_answer prov h el)"

definition type_into :: "provider \<Rightarrow> element \<Rightarrow> string \<Rightarrow> bool \<Rightarrow> bool io" where
  "type_into prov el text submit =
     capability (TypeInto el text submit) (\<lambda>h. type_into_answer prov h el text submit)"

definition launchApplication :: "provider \<Rightarrow> string \<Rightarrow> bool io" where
  "launchApplication prov name =
     capability (LaunchApplication name) (\<lambda>h. launchApplication_answer prov h name)"

definition runningApplications :: "provider \<Rightarrow> app list io" where
  "runningApplications prov = capability RunningApplications (runningApplications_answer prov)"

definition sleep :: "nat \<Rightarrow> unit io" where
  "sleep n w = (Inr (), w\<lparr>calls := calls w @ [Sleep n]\<rparr>)"

subsection \<open>Strings\<close>

definition check_mark :: string where
  "check_mark = [CHR 0xE2, CHR 0x9C, CHR 0x85]"

definition cross_mark :: string where
  "cross_mark = [CHR 0xE2, CHR 0x9D, CHR 0x8C]"

text \<open>\<^verbatim>\<open>str(n)\<close> of an integer, as an f-string formats it.\<close>

definition digit :: "nat \<Rightarrow> char" where
  "digit d = char_of (48 + d)"

fun str_nat :: "nat \<Rightarrow> string" where
  "str_nat n = (if n < 10 then [digit n] else str_nat (n div 10) @ [digit (n mod 10)])"

declare str_nat.simps [simp del]

definition str_int :: "int \<Rightarrow> string" where
  "str_int i = (if i < 0 then CHR ''-'' # str_nat (nat (- i)) else str_nat (nat i))"

text \<open>
  \<^verbatim>\<open>s.lower()\<close> is Python's own method of \<^verbatim>\<open>str\<close>, defined over all of Unicode and not by
  the source. The definitions that call it take it as the parameter \<open>lower\<close>, of this type;
  nothing is assumed of it.
\<close>

type_synonym str_lower = "string \<Rightarrow> string"

text \<open>\<^verbatim>\<open>xs in ys\<close> on strings: \<open>xs\<close> occurs in \<open>ys\<close> as a contiguous run.\<close>

fun starts_with :: "string \<Rightarrow> string \<Rightarrow> bool" where
  "starts_with ys [] = True"
| "starts_with [] (x # xs) = False"
| "starts_with (y # ys) (x # xs) = (x = y \<and> starts_with ys xs)"

fun contains :: "string \<Rightarrow> string \<Rightarrow> bool" where
  "contains [] xs = (xs = [])"
| "contains (y # ys) xs = (starts_with (y # ys) xs \<or> contains ys xs)"

text \<open>Truth value of an optional string in a condition: None and the empty string are false.\<close>

fun truthy :: "string option \<Rightarrow> bool" where
  "truthy None = False"
| "truthy (Some s) = (s \<noteq> [])"

subsection \<open>The built-in actions\<close>

definition done_action :: "string \<Rightarrow> ActionResult io" where
  "done_action text = return (ActionResult_default\<lparr>extracted_content := Some text, is_done := True\<rparr>)"

definition input_text ::
  "provider \<Rightarrow> int \<Rightarrow> string \<Rightarrow> bool \<Rightarrow> MacUITreeBuilder \<Rightarrow> ActionResult io" where
  "input_text prov index text submit mac_tree_builder =
     bind
       (try_except
          (case element_cache mac_tree_builder index of
             Some element_to_input_text \<Rightarrow>
               bind (print (''Attempting to input text: '' @ element_to_input_text)) (\<lambda>_.
               bind (type_into prov element_to_input_text text submit) (\<lambda>input_successful.
                 if input_successful then print (check_mark @ '' Input successful!'')
                 else print (cross_mark @ '' Input failed.'')))
           | None \<Rightarrow> print (cross_mark @ '' Invalid index.''))
          (\<lambda>e. case e of
             ValueError _ \<Rightarrow>
               print (cross_mark @ '' Invalid input. Please enter a number or 'q'.'')
           | _ \<Rightarrow> print (cross_mark @ '' An error occurred: '' @ str_exn e)))
       (\<lambda>_. return (ActionResult_default
               \<lparr>extracted_content := Some (''input text into element with index '' @ str_int index)\<rparr>))"

definition click_element :: "provider \<Rightarrow> int \<Rightarrow> MacUITreeBuilder \<Rightarrow> ActionResult io" where
  "click_element prov index mac_tree_builder =
     bind
       (try_except
          (case element_cache mac_tree_builder index of
             Some element_to_click \<Rightarrow>
               bind (print (''Attempting to click: '' @ element_to_click)) (\<lambda>_.
               bind (click prov element_to_click) (\<lambda>click_successful.
                 if click_successful then print (check_mark @ '' Click successful!'')
                 else print (cross_mark @ '' Click failed.'')))
           | None \<Rightarrow> print (cross_mark @ '' Invalid index.''))
          (\<lambda>e. case e of
             ValueError _ \<Rightarrow>
               print (cross_mark @ '' Invalid input. Please enter a number or 'q'.'')
           | _ \<Rightarrow> print (cross_mark @ '' An error occurred: '' @ str_exn e)))
       (\<lambda>_. return (ActionResult_default
               \<lparr>extracted_content := Some (''clicked element with index '' @ str_int index)\<rparr>))"

text \<open>
  \<^verbatim>\<open>open_app\<close>. The two launch attempts end either in a \<^verbatim>\<open>return\<close> from inside the nested
  \<^verbatim>\<open>else\<close> (\<open>Inl\<close> of the result returned) or by falling through with the value of
  \<^verbatim>\<open>success\<close> (\<open>Inr\<close>); what follows the attempts is \<open>open_app_after_launch\<close>.
\<close>

definition open_app_launch :: "str_lower \<Rightarrow> provider \<Rightarrow> string \<Rightarrow> (ActionResult + bool) io" where
  "open_app_launch lower prov app_name =
     bind (print (CHR 0x0A # ''Launching app: '' @ app_name @ ''...'')) (\<lambda>_.
     bind (launchApplication prov app_name) (\<lambda>success.
       if success then
         bind (print (check_mark @ '' Launched app using name: '' @ app_name)) (\<lambda>_.
         return (Inr success))
       else
         bind (print (cross_mark @ '' Failed to launch app with name: '' @ app_name
                        @ ''. Trying lowercased...'')) (\<lambda>_.
         let app_name_lower = lower app_name in
         bind (launchApplication prov app_name_lower) (\<lambda>success.
           if success then
             bind (print (check_mark @ '' Launched app using lowercased name: ''
                            @ app_name_lower)) (\<lambda>_.
             return (Inr success))
           else
             bind (print (cross_mark @ '' Failed to launch app with lowercased name: ''
                            @ app_name_lower)) (\<lambda>_.
             let msg = ''Failed to launch app: '' @ app_name @ '' (and lowercased: ''
                         @ app_name_lower @ '')'' in
             return (Inl (ActionResult_default
                            \<lparr>extracted_content := Some msg, error := Some msg\<rparr>)))))))"

text \<open>
  The loop over the running applications: the first one whose bundle identifier is
  non-empty and contains the lower-cased name gives the pid.
\<close>

fun find_pid :: "str_lower \<Rightarrow> string \<Rightarrow> app list \<Rightarrow> int option io" where
  "find_pid lower app_name [] = return None"
| "find_pid lower app_name (a # apps) =
     (case bundleIdentifier a of
        None \<Rightarrow> find_pid lower app_name apps
      | Some bundle_id \<Rightarrow>
          if bundle_id \<noteq> [] \<and> contains (lower bundle_id) (lower app_name) then
            bind (print (''Bundle ID: '' @ bundle_id)) (\<lambda>_.
            let pid = processIdentifier a in
            bind (print (''PID: '' @ str_int pid)) (\<lambda>_.
            return (Some pid)))
          else find_pid lower app_name apps)"

definition open_app_after_launch ::
  "str_lower \<Rightarrow> provider \<Rightarrow> string \<Rightarrow> bool \<Rightarrow> ActionResult io" where
  "open_app_after_launch lower prov app_name success =
     (if \<not> success then
        return (ActionResult_default
                  \<lparr>extracted_content := Some (''Failed to open app '' @ app_name)\<rparr>)
      else
        bind (sleep 1) (\<lambda>_.
        bind (runningApplications prov) (\<lambda>apps.
        bind (find_pid lower app_name apps) (\<lambda>pid.
          case pid of
            None \<Rightarrow>
              let msg = ''Could not find running app with name: '' @ app_name
                          @ '' in running applications.'' in
              return (ActionResult_default\<lparr>extracted_content := Some msg, error := Some msg\<rparr>)
          | Some p \<Rightarrow>
              return (ActionResult_default
                        \<lparr>extracted_content := Some (''We opened the app '' @ app_name),
                         current_app_pid := Some p\<rparr>)))))"

definition open_app :: "str_lower \<Rightarrow> provider \<Rightarrow> string \<Rightarrow> ActionResult io" where
  "open_app lower prov app_name =
     bind (open_app_launch lower prov app_name) (\<lambda>r.
       case r of
         Inl returned \<Rightarrow> return returned
       | Inr success \<Rightarrow> open_app_after_launch lower prov app_name success)"

text \<open>\<^verbatim>\<open>list_running_apps\<close>; \<open>str_opt\<close> is how an f-string shows a value that may be None.\<close>

fun str_opt :: "string option \<Rightarrow> string" where
  "str_opt None = ''None''"
| "str_opt (Some s) = s"

fun join :: "string \<Rightarrow> string list \<Rightarrow> string" where
  "join sep [] = []"
| "join sep [l] = l"
| "join sep (l # m # ls) = l @ sep @ join sep (m # ls)"

definition app_line :: "app \<Rightarrow> string" where
  "app_line a =
     (let app_path = (case bundleURL_path a of Some p \<Rightarrow> p | None \<Rightarrow> ''Path not available'')
      in str_opt (localizedName a) @ '' => '' @ str_opt (bundleIdentifier a)
           @ '' => Path: '' @ app_path)"

definition list_running_apps :: "provider \<Rightarrow> ActionResult io" where
  "list_running_apps prov =
     bind (runningApplications prov) (\<lambda>apps.
     let output = join [CHR 0x0A] (map app_line apps) in
     return (ActionResult_default\<lparr>extracted_content := Some output\<rparr>))"

subsection \<open>Requests and the dispatcher\<close>

text \<open>
  The parameter payload of a request. The parameter models (mlx\_use.controller.views) are
  not part of the source at hand; their fields are the keyword arguments of the functions
  registered with them.
\<close>

datatype params =
    DoneAction string
  | InputTextAction int string bool
  | ClickElementAction int
  | OpenAppAction string
  | NoParamsAction

text \<open>
  An \<^verbatim>\<open>ActionModel\<close>, as \<^verbatim>\<open>model_dump(exclude_unset=True).items()\<close> lists it: the fields
  that were set, in order, each with its payload or None.
\<close>

type_synonym ActionModel = "(string \<times> params option) list"

text \<open>
  What a registered function may hand back: a string, an \<^verbatim>\<open>ActionResult\<close>, None, or a
  value of another type, given by the printed forms of its type and of itself.
\<close>

datatype raw_result =
    RStr string
  | RActionResult ActionResult
  | RNone
  | ROther string string

text \<open>
  \<^verbatim>\<open>self.registry.execute_action\<close> is a parameter of the dispatcher: the registry is
  not part of the source at hand.
\<close>

type_synonym execute = "string \<Rightarrow> params \<Rightarrow> MacUITreeBuilder \<Rightarrow> raw_result io"

text \<open>The error that the spec calls InvalidResultTypeError: a ValueError with this message.\<close>

definition InvalidResultTypeError :: "string \<Rightarrow> string \<Rightarrow> exn" where
  "InvalidResultTypeError ty v = ValueError (''Invalid action result type: '' @ ty @ '' of '' @ v)"

fun act_items :: "execute \<Rightarrow> ActionModel \<Rightarrow> MacUITreeBuilder \<Rightarrow> ActionResult io" where
  "act_items ex [] mac_tree_builder = return ActionResult_default"
| "act_items ex ((action_name, None) # items) mac_tree_builder =
     act_items ex items mac_tree_builder"
| "act_items ex ((action_name, Some params) # items) mac_tree_builder =
     bind (ex action_name params mac_tree_builder) (\<lambda>result.
       case result of
         RStr s \<Rightarrow> return (ActionResult_default\<lparr>extracted_content := Some s\<rparr>)
       | RActionResult r \<Rightarrow> return r
       | RNone \<Rightarrow> return ActionResult_default
       | ROther ty v \<Rightarrow> raise (InvalidResultTypeError ty v))"

definition act :: "execute \<Rightarrow> ActionModel \<Rightarrow> MacUITreeBuilder \<Rightarrow> ActionResult io" where
  "act ex action mac_tree_builder =
     try_except (act_items ex action mac_tree_builder) (\<lambda>e. raise e)"

subsection \<open>The sequence runner\<close>

text \<open>
  The loop of \<^verbatim>\<open>multi_act\<close>: \<open>n\<close> is \<^verbatim>\<open>len(actions)\<close>, \<open>i\<close> the index of the request at
  the head of what remains, \<open>results\<close> the list built so far.
\<close>

fun multi_act_loop ::
  "execute \<Rightarrow> nat \<Rightarrow> nat \<Rightarrow> ActionModel list \<Rightarrow> ActionResult list \<Rightarrow> MacUITreeBuilder
     \<Rightarrow> ActionResult list io" where
  "multi_act_loop ex n i [] results mac_tree_builder = return results"
| "multi_act_loop ex n i (action # rest) results mac_tree_builder =
     bind (act ex action mac_tree_builder) (\<lambda>r.
       let results' = results @ [r] in
       if is_done (last results') \<or> truthy (error (last results')) \<or> int i = int n - 1
       then return results'
       else multi_act_loop ex n (i + 1) rest results' mac_tree_builder)"

definition multi_act :: "execute \<Rightarrow> ActionModel list \<Rightarrow> MacUITreeBuilder \<Rightarrow> ActionResult list io" where
  "multi_act ex actions mac_tree_builder =
     multi_act_loop ex (length actions) 0 actions [] mac_tree_builder"

subsection \<open>The registry\<close>

text \<open>
  Modelled from the spec: the registry (mlx\_use.controller.registry.service) is not part of
  the source at hand. A descriptor holds the name, the description, the parameter schema,
  whether the context is required, and the registered function. Executing by name looks
  the descriptor up (UnknownActionError if absent), validates the payload against the
  schema (InvalidParametersError), requires a context where the descriptor asks for one
  (MissingContextError) and passes it on only then, and invokes the function.
\<close>

datatype param_model =
    DoneAction_model
  | InputTextAction_model
  | ClickElementAction_model
  | OpenAppAction_model
  | NoParamsAction_model

fun conforms :: "param_model \<Rightarrow> params \<Rightarrow> bool" where
  "conforms DoneAction_model (DoneAction _) = True"
| "conforms InputTextAction_model (InputTextAction _ _ _) = True"
| "conforms ClickElementAction_model (ClickElementAction _) = True"
| "conforms OpenAppAction_model (OpenAppAction _) = True"
| "conforms NoParamsAction_model NoParamsAction = True"
| "conforms _ _ = False"

record RegisteredAction =
  action_name :: string
  action_description :: string
  action_param_model :: param_model
  requires_mac_builder :: bool
  action_function :: "params \<Rightarrow> MacUITreeBuilder option \<Rightarrow> raw_result io"

type_synonym Registry = "RegisteredAction list"

definition execute_action :: "Registry \<Rightarrow> string \<Rightarrow> params \<Rightarrow> MacUITreeBuilder option \<Rightarrow> raw_result io" where
  "execute_action registry name params mac_tree_builder =
     (case find (\<lambda>a. action_name a = name) registry of
        None \<Rightarrow> raise (UnknownActionError name)
      | Some a \<Rightarrow>
          if \<not> conforms (action_param_model a) params then raise (InvalidParametersError name)
          else if requires_mac_builder a then
            (case mac_tree_builder of
               None \<Rightarrow> raise (MissingContextError name)
             | Some b \<Rightarrow> action_function a params (Some b))
          else action_function a params None)"

text \<open>
  The functions as the decorator registers them: the validated payload is unpacked into
  the keyword arguments, and the \<^verbatim>\<open>ActionResult\<close> of the action is what is handed back.
\<close>

definition as_result :: "ActionResult io \<Rightarrow> raw_result io" where
  "as_result m = bind m (\<lambda>r. return (RActionResult r))"

fun done_function :: "params \<Rightarrow> MacUITreeBuilder option \<Rightarrow> raw_result io" where
  "done_function (DoneAction text) _ = as_result (done_action text)"
| "done_function _ _ = raise (InvalidParametersError ''done'')"

fun input_text_function :: "provider \<Rightarrow> params \<Rightarrow> MacUITreeBuilder option \<Rightarrow> raw_result io" where
  "input_text_function prov (InputTextAction index text submit) (Some mac_tree_builder) =
     as_result (input_text prov index text submit mac_tree_builder)"
| "input_text_function prov (InputTextAction index text submit) None =
     raise (MissingContextError ''input_text'')"
| "input_text_function prov _ _ = raise (InvalidParametersError ''input_text'')"

fun click_element_function :: "provider \<Rightarrow> params \<Rightarrow> MacUITreeBuilder option \<Rightarrow> raw_result io" where
  "click_element_function prov (ClickElementAction index) (Some mac_tree_builder) =
     as_result (click_element prov index mac_tree_builder)"
| "click_element_function prov (ClickElementAction index) None =
     raise (MissingContextError ''click_element'')"
| "click_element_function prov _ _ = raise (InvalidParametersError ''click_element'')"

fun open_app_function ::
  "str_lower \<Rightarrow> provider \<Rightarrow> params \<Rightarrow> MacUITreeBuilder option \<Rightarrow> raw_result io" where
  "open_app_function lower prov (OpenAppAction app_name) _ =
     as_result (open_app lower prov app_name)"
| "open_app_function lower prov _ _ = raise (InvalidParametersError ''open_app'')"

fun list_running_apps_function :: "provider \<Rightarrow> params \<Rightarrow> MacUITreeBuilder option \<Rightarrow> raw_result io" where
  "list_running_apps_function prov NoParamsAction _ = as_result (list_running_apps prov)"
| "list_running_apps_function prov _ _ = raise (InvalidParametersError ''list_running_apps'')"

text \<open>
  \<^verbatim>\<open>_register_default_actions\<close>: the five actions in the order of the source, each under
  the name of its function, with the description, parameter model and
  \<^verbatim>\<open>requires_mac_builder\<close> flag given to the decorator (False where none is given).
\<close>

definition default_actions :: "str_lower \<Rightarrow> provider \<Rightarrow> RegisteredAction list" where
  "default_actions lower prov =
     [\<lparr>action_name = ''done'',
       action_description = ''Complete task with text for the user'',
       action_param_model = DoneAction_model,
       requires_mac_builder = False,
       action_function = done_function\<rparr>,
      \<lparr>action_name = ''input_text'',
       action_description = ''Input text'',
       action_param_model = InputTextAction_model,
       requires_mac_builder = True,
       action_function = input_text_function prov\<rparr>,
      \<lparr>action_name = ''click_element'',
       action_description = ''Click element'',
       action_param_model = ClickElementAction_model,
       requires_mac_builder = True,
       action_function = click_element_function prov\<rparr>,
      \<lparr>action_name = ''open_app'',
       action_description = ''Open a mac app'',
       action_param_model = OpenAppAction_model,
       requires_mac_builder = False,
       action_function = open_app_function lower prov\<rparr>,
      \<lparr>action_name = ''list_running_apps'',
       action_description =
         ''List running mac apps (returns localized name, bundle id, and app path)'',
       action_param_model = NoParamsAction_model,
       requires_mac_builder = False,
       action_function = list_running_apps_function prov\<rparr>]"

text \<open>
  \<^verbatim>\<open>Controller(exclude_actions)\<close>: exclusion is decided at registration, so an excluded
  action is never in the registry.
\<close>

record Controller =
  exclude_actions :: "string list"
  registry :: Registry

definition Controller_init :: "str_lower \<Rightarrow> provider \<Rightarrow> string list \<Rightarrow> Controller" where
  "Controller_init lower prov exclude =
     \<lparr>exclude_actions = exclude,
      registry = filter (\<lambda>a. action_name a \<notin> set exclude) (default_actions lower prov)\<rparr>"

text \<open>The dispatcher and the sequence runner of a controller: the context is always passed.\<close>

definition controller_execute :: "Controller \<Rightarrow> execute" where
  "controller_execute c name params mac_tree_builder =
     execute_action (registry c) name params (Some mac_tree_builder)"

definition controller_act :: "Controller \<Rightarrow> ActionModel \<Rightarrow> MacUITreeBuilder \<Rightarrow> ActionResult io" where
  "controller_act c = act (controller_execute c)"

definition controller_multi_act ::
  "Controller \<Rightarrow> ActionModel list \<Rightarrow> MacUITreeBuilder \<Rightarrow> ActionResult list io" where
  "controller_multi_act c = multi_act (controller_execute c)"

subsection \<open>The sequence runner in the words of the specification\<close>

text \<open>
  The contract of the sequence runner, as a second definition to compare \<open>multi_act\<close>
  with: dispatch the requests in order, collect the results, and stop after the first
  result that \<open>stop\<close> holds of, or when the requests are exhausted. Two readings of
  "terminal": \<open>terminal_as_stated\<close> is the wording "is\_done is true or the error is
  non-null"; \<open>terminal\<close> is the truth test of the source, under which an empty error string
  counts as no error.
\<close>

definition terminal_as_stated :: "ActionResult \<Rightarrow> bool" where
  "terminal_as_stated r = (is_done r \<or> error r \<noteq> None)"

definition terminal :: "ActionResult \<Rightarrow> bool" where
  "terminal r = (is_done r \<or> truthy (error r))"

fun run_sequence ::
  "(ActionResult \<Rightarrow> bool) \<Rightarrow> execute \<Rightarrow> ActionModel list \<Rightarrow> MacUITreeBuilder
     \<Rightarrow> ActionResult list io" where
  "run_sequence stop ex [] mac_tree_builder = return []"
| "run_sequence stop ex (request # requests) mac_tree_builder =
     bind (act ex request mac_tree_builder) (\<lambda>r.
       if stop r \<or> requests = [] then return [r]
       else bind (run_sequence stop ex requests mac_tree_builder) (\<lambda>rs. return (r # rs)))"

text \<open>
  Running a sequence to exhaustion: every request is dispatched, in order, whatever the
  results are; an exception raised by a dispatch propagates.
\<close>

fun dispatch_all :: "execute \<Rightarrow> ActionModel list \<Rightarrow> MacUITreeBuilder \<Rightarrow> ActionResult list io" where
  "dispatch_all ex [] mac_tree_builder = return []"
| "dispatch_all ex (request # requests) mac_tree_builder =
     bind (act ex request mac_tree_builder) (\<lambda>r.
     bind (dispatch_all ex requests mac_tree_builder) (\<lambda>rs.
     return (r # rs)))"

text \<open>
  The requests that name the click or the input action with a payload of its parameter
  model, and the result that the action returns for such a request.
\<close>

fun click_or_input_request :: "ActionModel \<Rightarrow> bool" where
  "click_or_input_request [(name, Some (ClickElementAction index))] = (name = ''click_element'')"
| "click_or_input_request [(name, Some (InputTextAction index text submit))] =
     (name = ''input_text'')"
| "click_or_input_request _ = False"

fun click_or_input_result :: "ActionModel \<Rightarrow> ActionResult" where
  "click_or_input_result [(name, Some (ClickElementAction index))] =
     \<lparr>is_done = False,
      extracted_content = Some (''clicked element with index '' @ str_int index),
      error = None, current_app_pid = None\<rparr>"
| "click_or_input_result [(name, Some (InputTextAction index text submit))] =
     \<lparr>is_done = False,
      extracted_content = Some (''input text into element with index '' @ str_int index),
      error = None, current_app_pid = None\<rparr>"
| "click_or_input_result _ = ActionResult_default"

subsection \<open>Concrete inputs\<close>

text \<open>
  A stand-in registry for running the dispatcher on concrete requests: it prints the name
  it is asked to execute, then hands back the value the table gives for that name.
\<close>

definition scripted :: "(string \<times> raw_result) list \<Rightarrow> execute" where
  "scripted table name params mac_tree_builder =
     bind (print name) (\<lambda>_.
       case map_of table name of
         Some r \<Rightarrow> return r
       | None \<Rightarrow> raise (UnknownActionError name))"

definition w0 :: world where
  "w0 = \<lparr>calls = [], stdout = []\<rparr>"

definition no_elements :: MacUITreeBuilder where
  "no_elements = \<lparr>element_cache = Map.empty\<rparr>"

definition one_element :: MacUITreeBuilder where
  "one_element = \<lparr>element_cache = [7 \<mapsto> ''button'']\<rparr>"

text \<open>
  Providers for concrete runs: \<open>provider_const b apps\<close> answers \<open>b\<close> to every click, input
  and launch and lists \<open>apps\<close> as running; \<open>provider_raising\<close> raises on every call.
\<close>

definition provider_const :: "bool \<Rightarrow> app list \<Rightarrow> provider" where
  "provider_const b apps =
     \<lparr>click_answer = (\<lambda>h el. Inr b),
      type_into_answer = (\<lambda>h el text submit. Inr b),
      launchApplication_answer = (\<lambda>h name. Inr b),
      runningApplications_answer = (\<lambda>h. Inr apps)\<rparr>"

definition provider_raising :: provider where
  "provider_raising =
     \<lparr>click_answer = (\<lambda>h el. Inl (Exception ''no accessibility'')),
      type_into_answer = (\<lambda>h el text submit. Inl (ValueError ''bad text'')),
      launchApplication_answer = (\<lambda>h name. Inl (Exception ''no workspace'')),
      runningApplications_answer = (\<lambda>h. Inl (Exception ''no workspace''))\<rparr>"

definition safari :: app where
  "safari =
     \<lparr>localizedName = Some ''Safari'', bundleIdentifier = Some ''com.apple.Safari'',
      bundleURL_path = Some ''/Applications/Safari.app'', processIdentifier = 4242\<rparr>"

definition finder :: app where
  "finder =
     \<lparr>localizedName = Some ''Finder'', bundleIdentifier = Some ''com.apple.finder'',
      bundleURL_path = None, processIdentifier = 311\<rparr>"

text \<open>
  For concrete runs, \<^verbatim>\<open>str.lower()\<close> on strings of ASCII characters, where it maps the
  letters A to Z to a to z and leaves every other character as it is. It is applied to
  ASCII strings only.
\<close>

definition lower_char :: "char \<Rightarrow> char" where
  "lower_char c =
     (let n = (of_char c :: nat) in if 65 \<le> n \<and> n \<le> 90 then char_of (n + 32) else c)"

definition ascii_lower :: str_lower where
  "ascii_lower s = map lower_char s"

text \<open>A provider that launches an application only under a lower-case name.\<close>

definition provider_lowercase_only :: "app list \<Rightarrow> provider" where
  "provider_lowercase_only apps =
     \<lparr>click_answer = (\<lambda>h el. Inr True),
      type_into_answer = (\<lambda>h el text submit. Inr True),
      launchApplication_answer = (\<lambda>h name. Inr (name = ascii_lower name)),
      runningApplications_answer = (\<lambda>h. Inr apps)\<rparr>"

section \<open>Properties\<close>

subsection \<open>The dispatcher\<close>

lemma act_items_skip:
  "\<forall>(n, p) \<in> set skipped. p = None \<Longrightarrow>
     act_items ex (skipped @ items) mtb = act_items ex items mtb"
  by (induction skipped) auto

lemma act_eq: "act ex action mtb w = act_items ex action mtb w"
  by (simp add: act_def try_except_def raise_def split: prod.splits sum.splits)

text \<open>
  C6. A request with no populated entry (every listed entry is None, or none is listed)
  is a no-op: the dispatcher returns the empty \<^verbatim>\<open>ActionResult\<close>, which has no error, is
  not done and has no content, executes nothing and leaves the world as it was.
\<close>

theorem act_no_populated_entries:
  assumes "\<forall>(n, p) \<in> set action. p = None"
  shows "act ex action mtb w = (Inr ActionResult_default, w)
         \<and> error ActionResult_default = None \<and> \<not> is_done ActionResult_default
         \<and> extracted_content ActionResult_default = None"
proof -
  have "act_items ex (action @ []) mtb = act_items ex [] mtb"
    using assms by (rule act_items_skip)
  then show ?thesis
    by (simp add: act_eq return_def ActionResult_default_def)
qed

theorem act_no_populated_entries_witness:
  "act (scripted []) [(''done'', None), (''click_element'', None)] no_elements w0
     = (Inr ActionResult_default, w0)
   \<and> act (scripted []) [] no_elements w0 = (Inr ActionResult_default, w0)"
proof -
  have h: "\<forall>(n, p) \<in> set [(''done'', None :: params option), (''click_element'', None)]. p = None"
    by simp
  have e: "\<forall>(n, p) \<in> set ([] :: ActionModel). p = None"
    by simp
  have a: "act (scripted []) [(''done'', None), (''click_element'', None)] no_elements w0
             = (Inr ActionResult_default, w0)"
    by (rule act_no_populated_entries [OF h, THEN conjunct1])
  have b: "act (scripted []) [] no_elements w0 = (Inr ActionResult_default, w0)"
    by (rule act_no_populated_entries [OF e, THEN conjunct1])
  from a b show ?thesis
    by (intro conjI)
qed

text \<open>
  C5. The dispatcher executes the first populated entry of the request and normalises
  what the registered function hands back: a string becomes the result with that string
  as its content, an \<^verbatim>\<open>ActionResult\<close> is passed through as it is, None becomes the empty
  result, and a value of any other type raises the invalid-result-type error (in the
  source a ValueError whose message starts with "Invalid action result type").
\<close>

theorem act_normalises:
  assumes "\<forall>(n, q) \<in> set skipped. q = None"
    and "ex name p mtb w = (Inr result, w')"
  shows "act ex (skipped @ (name, Some p) # rest) mtb w =
     (case result of
        RStr s \<Rightarrow>
          (Inr \<lparr>is_done = False, extracted_content = Some s, error = None,
                current_app_pid = None\<rparr>, w')
      | RActionResult r \<Rightarrow> (Inr r, w')
      | RNone \<Rightarrow>
          (Inr \<lparr>is_done = False, extracted_content = None, error = None,
                current_app_pid = None\<rparr>, w')
      | ROther ty v \<Rightarrow> (Inl (InvalidResultTypeError ty v), w'))"
  using assms(2)
  by (simp add: act_eq act_items_skip [OF assms(1)] bind_def return_def raise_def
      ActionResult_default_def split: raw_result.splits)

theorem act_normalises_witness:
  "act (scripted [(''a'', RStr ''hello'')]) ([(''b'', None)] @ (''a'', Some NoParamsAction) # [])
       no_elements w0
     = (Inr \<lparr>is_done = False, extracted_content = Some ''hello'', error = None,
             current_app_pid = None\<rparr>, \<lparr>calls = [], stdout = [''a'']\<rparr>)
   \<and> act (scripted [(''a'', RActionResult (ActionResult_default\<lparr>is_done := True\<rparr>))]) ([] @ (''a'', Some NoParamsAction) # []) no_elements w0
     = (Inr (ActionResult_default\<lparr>is_done := True\<rparr>), \<lparr>calls = [], stdout = [''a'']\<rparr>)
   \<and> act (scripted [(''a'', RNone)]) ([] @ (''a'', Some NoParamsAction) # []) no_elements w0
     = (Inr \<lparr>is_done = False, extracted_content = None, error = None,
             current_app_pid = None\<rparr>, \<lparr>calls = [], stdout = [''a'']\<rparr>)
   \<and> act (scripted [(''a'', ROther ''<class 'int'>'' ''3'')]) ([] @ (''a'', Some NoParamsAction) # [])
       no_elements w0
     = (Inl (ValueError ''Invalid action result type: <class 'int'> of 3''),
        \<lparr>calls = [], stdout = [''a'']\<rparr>)"
proof -
  have s: "\<forall>(n, q) \<in> set [(''b'', None :: params option)]. q = None"
    by simp
  have e: "\<forall>(n, q) \<in> set ([] :: ActionModel). q = None"
    by simp
  have x: "scripted [(''a'', result)] ''a'' NoParamsAction no_elements w0
             = (Inr result, \<lparr>calls = [], stdout = [''a'']\<rparr>)" for result
    by (simp add: scripted_def bind_def return_def print_def w0_def)
  have a: "act (scripted [(''a'', RStr ''hello'')]) ([(''b'', None)] @ (''a'', Some NoParamsAction) # [])
       no_elements w0
     = (Inr \<lparr>is_done = False, extracted_content = Some ''hello'', error = None,
             current_app_pid = None\<rparr>, \<lparr>calls = [], stdout = [''a'']\<rparr>)"
    using act_normalises [where rest = "[]" and ex = "scripted [(''a'', RStr ''hello'')]" and name = "''a''"
        and p = NoParamsAction and mtb = no_elements and w = w0 and result = "RStr ''hello''"
        and w' = "\<lparr>calls = [], stdout = [''a'']\<rparr>", OF s x [of "RStr ''hello''"]] by simp
  have b: "act (scripted [(''a'', RActionResult (ActionResult_default\<lparr>is_done := True\<rparr>))]) ([] @ (''a'', Some NoParamsAction) # []) no_elements w0
     = (Inr (ActionResult_default\<lparr>is_done := True\<rparr>), \<lparr>calls = [], stdout = [''a'']\<rparr>)"
    using act_normalises [where rest = "[]" and ex = "scripted [(''a'', RActionResult (ActionResult_default\<lparr>is_done := True\<rparr>))]" and name = "''a''"
        and p = NoParamsAction and mtb = no_elements and w = w0 and result = "RActionResult (ActionResult_default\<lparr>is_done := True\<rparr>)"
        and w' = "\<lparr>calls = [], stdout = [''a'']\<rparr>", OF e x [of "RActionResult (ActionResult_default\<lparr>is_done := True\<rparr>)"]] by simp
  have c: "act (scripted [(''a'', RNone)]) ([] @ (''a'', Some NoParamsAction) # []) no_elements w0
     = (Inr \<lparr>is_done = False, extracted_content = None, error = None,
             current_app_pid = None\<rparr>, \<lparr>calls = [], stdout = [''a'']\<rparr>)"
    using act_normalises [where rest = "[]" and ex = "scripted [(''a'', RNone)]" and name = "''a''"
        and p = NoParamsAction and mtb = no_elements and w = w0 and result = "RNone"
        and w' = "\<lparr>calls = [], stdout = [''a'']\<rparr>", OF e x [of "RNone"]] by simp
  have d: "act (scripted [(''a'', ROther ''<class 'int'>'' ''3'')]) ([] @ (''a'', Some NoParamsAction) # [])
       no_elements w0
     = (Inl (ValueError ''Invalid action result type: <class 'int'> of 3''),
        \<lparr>calls = [], stdout = [''a'']\<rparr>)"
    using act_normalises [where rest = "[]" and ex = "scripted [(''a'', ROther ''<class 'int'>'' ''3'')]" and name = "''a''"
        and p = NoParamsAction and mtb = no_elements and w = w0 and result = "ROther ''<class 'int'>'' ''3''"
        and w' = "\<lparr>calls = [], stdout = [''a'']\<rparr>", OF e x [of "ROther ''<class 'int'>'' ''3''"]]
    by (simp add: InvalidResultTypeError_def)
  from a b c d show ?thesis by (intro conjI)
qed

subsection \<open>The sequence runner\<close>

lemma multi_act_loop_length:
  "multi_act_loop ex n i actions results mtb w = (Inr rs, w') \<Longrightarrow>
     length rs \<le> length results + length actions"
proof (induction actions arbitrary: i results w)
  case Nil
  then show ?case by (simp add: return_def)
next
  case (Cons a actions)
  then show ?case
    by (fastforce simp: bind_def return_def Let_def split: prod.splits sum.splits if_splits)
qed

text \<open>
  C10. On the empty list of requests the sequence runner returns the empty list of
  results and does nothing (the world is unchanged); and whenever it returns, it returns
  at most as many results as there were requests.
\<close>

theorem multi_act_empty_and_length:
  "multi_act ex [] mtb w = (Inr [], w)
   \<and> (multi_act ex actions mtb w = (Inr rs, w') \<longrightarrow> length rs \<le> length actions)"
  using multi_act_loop_length [of ex "length actions" 0 actions "[]" mtb w rs w']
  by (simp add: multi_act_def return_def)

theorem multi_act_empty_and_length_witness:
  "multi_act (scripted [(''a'', RStr ''x''), (''b'', RNone)])
       [[(''a'', Some NoParamsAction)], [(''b'', Some NoParamsAction)]] no_elements w0
     = (Inr [ActionResult_default\<lparr>extracted_content := Some ''x''\<rparr>, ActionResult_default],
        \<lparr>calls = [], stdout = [''a'', ''b'']\<rparr>)
   \<and> length [ActionResult_default\<lparr>extracted_content := Some ''x''\<rparr>, ActionResult_default]
       \<le> length [[(''a'', Some NoParamsAction)], [(''b'', Some (NoParamsAction))]]"
proof -
  have run: "multi_act (scripted [(''a'', RStr ''x''), (''b'', RNone)])
       [[(''a'', Some NoParamsAction)], [(''b'', Some NoParamsAction)]] no_elements w0
     = (Inr [ActionResult_default\<lparr>extracted_content := Some ''x''\<rparr>, ActionResult_default],
        \<lparr>calls = [], stdout = [''a'', ''b'']\<rparr>)"
    by code_simp
  have len: "length [ActionResult_default\<lparr>extracted_content := Some ''x''\<rparr>, ActionResult_default]
       \<le> length [[(''a'', Some NoParamsAction)], [(''b'', Some (NoParamsAction))]]"
    by (rule multi_act_empty_and_length [THEN conjunct2, THEN mp, OF run])
  from run len show ?thesis by (intro conjI)
qed

lemmas io_defs = bind_def return_def raise_def try_except_def print_def capability_def

lemma multi_act_loop_run_sequence:
  "n = i + length actions \<Longrightarrow>
   multi_act_loop ex n i actions results mtb w =
     (case run_sequence terminal ex actions mtb w of
        (Inl e, w') \<Rightarrow> (Inl e, w')
      | (Inr rs, w') \<Rightarrow> (Inr (results @ rs), w'))"
proof (induction actions arbitrary: i results w)
  case Nil
  then show ?case by (simp add: return_def)
next
  case (Cons a actions)
  show ?case
  proof (cases "act ex a mtb w")
    case (Pair x w1)
    show ?thesis
    proof (cases x)
      case (Inl e)
      with Pair show ?thesis by (simp add: bind_def)
    next
      case (Inr r)
      have last: "(int i = int n - 1) = (actions = [])"
        using Cons.prems by auto
      have step: "Suc i + length actions = n"
        using Cons.prems by simp
      show ?thesis
      proof (cases "terminal r \<or> actions = []")
        case True
        with Pair Inr last show ?thesis
          by (auto simp: bind_def return_def Let_def terminal_def)
      next
        case False
        with Pair Inr last Cons.IH [of "Suc i" "results @ [r]" w1] step show ?thesis
          by (auto simp: bind_def return_def Let_def terminal_def split: prod.splits sum.splits)
      qed
    qed
  qed
qed

lemma multi_act_run_sequence:
  "multi_act ex actions mtb w = run_sequence terminal ex actions mtb w"
  using multi_act_loop_run_sequence [of "length actions" 0 actions ex "[]" mtb w]
  by (simp add: multi_act_def split: prod.splits sum.splits)

text \<open>
  C1, as stated, at a request whose result carries the empty string as its error: the
  error is not None, so the wording "non-null error" makes the runner stop after the first
  request (the third equation), yet \<open>multi_act\<close> goes on and dispatches the second.
\<close>

theorem multi_act_empty_error_counterexample:
  "multi_act
     (scripted [(''a'', RActionResult (ActionResult_default\<lparr>error := Some ''''\<rparr>)), (''b'', RNone)])
     [[(''a'', Some NoParamsAction)], [(''b'', Some NoParamsAction)]] no_elements w0
   = (Inr [ActionResult_default\<lparr>error := Some ''''\<rparr>, ActionResult_default],
      \<lparr>calls = [], stdout = [''a'', ''b'']\<rparr>)
   \<and> error (ActionResult_default\<lparr>error := Some ''''\<rparr>) \<noteq> None
   \<and> run_sequence terminal_as_stated
     (scripted [(''a'', RActionResult (ActionResult_default\<lparr>error := Some ''''\<rparr>)), (''b'', RNone)])
     [[(''a'', Some NoParamsAction)], [(''b'', Some NoParamsAction)]] no_elements w0
   = (Inr [ActionResult_default\<lparr>error := Some ''''\<rparr>], \<lparr>calls = [], stdout = [''a'']\<rparr>)"
  by code_simp

text \<open>
  C1, amended. \<open>multi_act\<close> is the sequence runner of the specification with the truth
  test of the source as the stop condition: it dispatches the requests in order and stops
  after the first result whose is\_done is true or whose error is a non-empty string, or
  when the requests are exhausted (an exception raised by a dispatch propagates). In
  particular, when the result of the first request is terminal in that sense, only that
  request is dispatched and the list returned has that one result, whatever follows it.
\<close>

theorem multi_act_stops:
  "multi_act ex actions mtb w = run_sequence terminal ex actions mtb w
   \<and> (act ex a mtb w = (Inr r, w') \<longrightarrow> is_done r \<or> truthy (error r) \<longrightarrow>
        multi_act ex (a # rest) mtb w = (Inr [r], w'))"
  by (simp add: multi_act_run_sequence terminal_def bind_def return_def)

theorem multi_act_stops_witness:
  "multi_act
     (scripted [(''a'', RActionResult (ActionResult_default\<lparr>is_done := True\<rparr>)),
                (''b'', RNone), (''c'', RNone)])
     [[(''a'', Some NoParamsAction)], [(''b'', Some NoParamsAction)],
      [(''c'', Some NoParamsAction)]] no_elements w0
   = (Inr [ActionResult_default\<lparr>is_done := True\<rparr>], \<lparr>calls = [], stdout = [''a'']\<rparr>)
   \<and> multi_act
     (scripted [(''a'', RActionResult (ActionResult_default\<lparr>error := Some ''boom''\<rparr>)),
                (''b'', RNone)])
     [[(''a'', Some NoParamsAction)], [(''b'', Some NoParamsAction)]] no_elements w0
   = (Inr [ActionResult_default\<lparr>error := Some ''boom''\<rparr>], \<lparr>calls = [], stdout = [''a'']\<rparr>)"
proof -
  have a: "act (scripted [(''a'', RActionResult (ActionResult_default\<lparr>is_done := True\<rparr>)),
                (''b'', RNone), (''c'', RNone)]) [(''a'', Some NoParamsAction)] no_elements w0
             = (Inr (ActionResult_default\<lparr>is_done := True\<rparr>), \<lparr>calls = [], stdout = [''a'']\<rparr>)"
    by code_simp
  have da: "is_done (ActionResult_default\<lparr>is_done := True\<rparr>)
              \<or> truthy (error (ActionResult_default\<lparr>is_done := True\<rparr>))"
    by simp
  have b: "act (scripted [(''a'', RActionResult (ActionResult_default\<lparr>error := Some ''boom''\<rparr>)),
                (''b'', RNone)]) [(''a'', Some NoParamsAction)] no_elements w0
             = (Inr (ActionResult_default\<lparr>error := Some ''boom''\<rparr>), \<lparr>calls = [], stdout = [''a'']\<rparr>)"
    by code_simp
  have db: "is_done (ActionResult_default\<lparr>error := Some ''boom''\<rparr>)
              \<or> truthy (error (ActionResult_default\<lparr>error := Some ''boom''\<rparr>))"
    by simp
  have one: "multi_act
     (scripted [(''a'', RActionResult (ActionResult_default\<lparr>is_done := True\<rparr>)),
                (''b'', RNone), (''c'', RNone)])
     ([(''a'', Some NoParamsAction)] # [[(''b'', Some NoParamsAction)],
      [(''c'', Some NoParamsAction)]]) no_elements w0
   = (Inr [ActionResult_default\<lparr>is_done := True\<rparr>], \<lparr>calls = [], stdout = [''a'']\<rparr>)"
    by (rule multi_act_stops [THEN conjunct2, THEN mp, THEN mp, OF a da])
  have two: "multi_act
     (scripted [(''a'', RActionResult (ActionResult_default\<lparr>error := Some ''boom''\<rparr>)),
                (''b'', RNone)])
     ([(''a'', Some NoParamsAction)] # [[(''b'', Some NoParamsAction)]]) no_elements w0
   = (Inr [ActionResult_default\<lparr>error := Some ''boom''\<rparr>], \<lparr>calls = [], stdout = [''a'']\<rparr>)"
    by (rule multi_act_stops [THEN conjunct2, THEN mp, THEN mp, OF b db])
  from one two show ?thesis by (intro conjI)
qed

subsection \<open>The click and input actions\<close>

lemma click_element_absent:
  "element_cache mtb index = None \<Longrightarrow>
   click_element prov index mtb w =
     (Inr \<lparr>is_done = False,
           extracted_content = Some (''clicked element with index '' @ str_int index),
           error = None, current_app_pid = None\<rparr>,
      w\<lparr>stdout := stdout w @ [cross_mark @ '' Invalid index.'']\<rparr>)"
  by (simp add: click_element_def io_defs ActionResult_default_def)

lemma click_element_present:
  "element_cache mtb index = Some el \<Longrightarrow>
   \<exists>line. click_element prov index mtb w =
     (Inr \<lparr>is_done = False,
           extracted_content = Some (''clicked element with index '' @ str_int index),
           error = None, current_app_pid = None\<rparr>,
      w\<lparr>calls := calls w @ [Click el],
        stdout := stdout w @ [''Attempting to click: '' @ el, line]\<rparr>)
     \<and> (click_answer prov (calls w) el = Inr True \<longrightarrow> line = check_mark @ '' Click successful!'')
     \<and> (click_answer prov (calls w) el = Inr False \<longrightarrow> line = cross_mark @ '' Click failed.'')"
  by (cases "click_answer prov (calls w) el")
     (auto simp: click_element_def click_def io_defs ActionResult_default_def split: exn.splits)

lemma input_text_absent:
  "element_cache mtb index = None \<Longrightarrow>
   input_text prov index text submit mtb w =
     (Inr \<lparr>is_done = False,
           extracted_content = Some (''input text into element with index '' @ str_int index),
           error = None, current_app_pid = None\<rparr>,
      w\<lparr>stdout := stdout w @ [cross_mark @ '' Invalid index.'']\<rparr>)"
  by (simp add: input_text_def io_defs ActionResult_default_def)

lemma input_text_present:
  "element_cache mtb index = Some el \<Longrightarrow>
   \<exists>line. input_text prov index text submit mtb w =
     (Inr \<lparr>is_done = False,
           extracted_content = Some (''input text into element with index '' @ str_int index),
           error = None, current_app_pid = None\<rparr>,
      w\<lparr>calls := calls w @ [TypeInto el text submit],
        stdout := stdout w @ [''Attempting to input text: '' @ el, line]\<rparr>)
     \<and> (type_into_answer prov (calls w) el text submit = Inr True
          \<longrightarrow> line = check_mark @ '' Input successful!'')
     \<and> (type_into_answer prov (calls w) el text submit = Inr False
          \<longrightarrow> line = cross_mark @ '' Input failed.'')"
  by (cases "type_into_answer prov (calls w) el text submit")
     (auto simp: input_text_def type_into_def io_defs ActionResult_default_def split: exn.splits)

subsection \<open>Opening an application\<close>

lemma open_app_launch_success:
  "open_app_launch lower prov app_name w = (Inr (Inr success), w') \<Longrightarrow> success"
  by (auto simp: open_app_launch_def launchApplication_def io_defs Let_def
      split: sum.splits if_splits)

lemma open_app_launch_both_fail:
  assumes "launchApplication_answer prov (calls w) app_name = Inr False"
    and "launchApplication_answer prov (calls w @ [LaunchApplication app_name]) (lower app_name)
           = Inr False"
  shows "open_app_launch lower prov app_name w =
     (Inr (Inl \<lparr>is_done = False,
                extracted_content = Some (''Failed to launch app: '' @ app_name
                  @ '' (and lowercased: '' @ lower app_name @ '')''),
                error = Some (''Failed to launch app: '' @ app_name
                  @ '' (and lowercased: '' @ lower app_name @ '')''),
                current_app_pid = None\<rparr>),
      \<lparr>calls = calls w @ [LaunchApplication app_name, LaunchApplication (lower app_name)],
       stdout = stdout w @
         [CHR 0x0A # ''Launching app: '' @ app_name @ ''...'',
          cross_mark @ '' Failed to launch app with name: '' @ app_name
            @ ''. Trying lowercased...'',
          cross_mark @ '' Failed to launch app with lowercased name: '' @ lower app_name]\<rparr>)"
  using assms
  by (simp add: open_app_launch_def launchApplication_def io_defs Let_def ActionResult_default_def)

lemma open_app_result_cases:
  "open_app lower prov app_name w = (Inr r, w') \<Longrightarrow>
     extracted_content r \<noteq> Some (''Failed to open app '' @ app_name)"
  by (auto simp: open_app_def open_app_after_launch_def open_app_launch_def
      launchApplication_def runningApplications_def sleep_def io_defs Let_def
      ActionResult_default_def split: sum.splits if_splits option.splits prod.splits)

text \<open>
  C4. Whatever \<^verbatim>\<open>str.lower()\<close> computes (\<open>lower\<close> is any function), when the launch under the
  name as given fails and the launch under the lower-cased name fails too, \<open>open_app\<close>
  returns a result whose error (and content) is the launch failure message, and the only
  calls it has made are the two launches: neither the delay nor the listing of the
  running applications takes place.
\<close>

theorem open_app_both_launches_fail:
  assumes "launchApplication_answer prov (calls w) app_name = Inr False"
    and "launchApplication_answer prov (calls w @ [LaunchApplication app_name]) (lower app_name)
           = Inr False"
  shows "open_app lower prov app_name w =
     (Inr \<lparr>is_done = False,
           extracted_content = Some (''Failed to launch app: '' @ app_name
             @ '' (and lowercased: '' @ lower app_name @ '')''),
           error = Some (''Failed to launch app: '' @ app_name
             @ '' (and lowercased: '' @ lower app_name @ '')''),
           current_app_pid = None\<rparr>,
      \<lparr>calls = calls w @ [LaunchApplication app_name, LaunchApplication (lower app_name)],
       stdout = stdout w @
         [CHR 0x0A # ''Launching app: '' @ app_name @ ''...'',
          cross_mark @ '' Failed to launch app with name: '' @ app_name
            @ ''. Trying lowercased...'',
          cross_mark @ '' Failed to launch app with lowercased name: '' @ lower app_name]\<rparr>)"
  by (simp add: open_app_def bind_def return_def
      open_app_launch_both_fail [where lower = lower, OF assms])

theorem open_app_both_launches_fail_witness:
  "open_app ascii_lower (provider_const False [safari]) ''Safari'' w0 =
     (Inr \<lparr>is_done = False,
           extracted_content = Some ''Failed to launch app: Safari (and lowercased: safari)'',
           error = Some ''Failed to launch app: Safari (and lowercased: safari)'',
           current_app_pid = None\<rparr>,
      \<lparr>calls = [LaunchApplication ''Safari'', LaunchApplication ''safari''],
       stdout =
         [CHR 0x0A # ''Launching app: Safari...'',
          cross_mark @ '' Failed to launch app with name: Safari. Trying lowercased...'',
          cross_mark @ '' Failed to launch app with lowercased name: safari'']\<rparr>)"
proof -
  have l: "ascii_lower ''Safari'' = ''safari''"
    by code_simp
  have a: "launchApplication_answer (provider_const False [safari]) (calls w0) ''Safari'' = Inr False"
    by (simp add: provider_const_def)
  have b: "launchApplication_answer (provider_const False [safari])
             (calls w0 @ [LaunchApplication ''Safari'']) (ascii_lower ''Safari'') = Inr False"
    by (simp add: provider_const_def)
  show ?thesis
    using open_app_both_launches_fail [where lower = ascii_lower, OF a b]
    by (simp add: l w0_def)
qed

text \<open>
  C9. In \<open>open_app\<close>, whenever the two launch attempts fall through to the test of
  \<open>success\<close> (they did not return from inside), \<open>success\<close> is true; so the branch
  \<^verbatim>\<open>if not success\<close> is never taken, and no result of \<open>open_app\<close> has the content
  "Failed to open app" followed by the name. This holds whatever \<^verbatim>\<open>str.lower()\<close> computes.
\<close>

theorem open_app_not_success_unreachable:
  "(open_app_launch lower prov app_name w = (Inr (Inr success), w1) \<longrightarrow> success)
   \<and> (open_app lower prov app_name w = (Inr r, w') \<longrightarrow>
        extracted_content r \<noteq> Some (''Failed to open app '' @ app_name))"
  using open_app_launch_success [of lower prov app_name w success w1]
    open_app_result_cases [of lower prov app_name w r w']
  by blast

theorem open_app_not_success_unreachable_witness:
  "open_app_launch ascii_lower (provider_lowercase_only [finder, safari]) ''Safari'' w0 =
     (Inr (Inr True),
      \<lparr>calls = [LaunchApplication ''Safari'', LaunchApplication ''safari''],
       stdout =
         [CHR 0x0A # ''Launching app: Safari...'',
          cross_mark @ '' Failed to launch app with name: Safari. Trying lowercased...'',
          check_mark @ '' Launched app using lowercased name: safari'']\<rparr>)
   \<and> open_app ascii_lower (provider_lowercase_only [finder, safari]) ''Safari'' w0 =
     (Inr \<lparr>is_done = False, extracted_content = Some ''We opened the app Safari'',
           error = None, current_app_pid = Some 4242\<rparr>,
      \<lparr>calls = [LaunchApplication ''Safari'', LaunchApplication ''safari'', Sleep 1,
                RunningApplications],
       stdout =
         [CHR 0x0A # ''Launching app: Safari...'',
          cross_mark @ '' Failed to launch app with name: Safari. Trying lowercased...'',
          check_mark @ '' Launched app using lowercased name: safari'',
          ''Bundle ID: com.apple.Safari'', ''PID: 4242'']\<rparr>)
   \<and> Some ''We opened the app Safari'' \<noteq> Some (''Failed to open app '' @ ''Safari'')"
proof -
  have a: "open_app_launch ascii_lower (provider_lowercase_only [finder, safari]) ''Safari'' w0 =
     (Inr (Inr True),
      \<lparr>calls = [LaunchApplication ''Safari'', LaunchApplication ''safari''],
       stdout =
         [CHR 0x0A # ''Launching app: Safari...'',
          cross_mark @ '' Failed to launch app with name: Safari. Trying lowercased...'',
          check_mark @ '' Launched app using lowercased name: safari'']\<rparr>)"
    by code_simp
  have b: "open_app ascii_lower (provider_lowercase_only [finder, safari]) ''Safari'' w0 =
     (Inr \<lparr>is_done = False, extracted_content = Some ''We opened the app Safari'',
           error = None, current_app_pid = Some 4242\<rparr>,
      \<lparr>calls = [LaunchApplication ''Safari'', LaunchApplication ''safari'', Sleep 1,
                RunningApplications],
       stdout =
         [CHR 0x0A # ''Launching app: Safari...'',
          cross_mark @ '' Failed to launch app with name: Safari. Trying lowercased...'',
          check_mark @ '' Launched app using lowercased name: safari'',
          ''Bundle ID: com.apple.Safari'', ''PID: 4242'']\<rparr>)"
    by code_simp
  have c: "Some ''We opened the app Safari'' \<noteq> Some (''Failed to open app '' @ ''Safari'')"
    using open_app_not_success_unreachable [THEN conjunct2, THEN mp, OF b] by simp
  from a b c show ?thesis by (intro conjI)
qed

subsection \<open>The actions through a controller\<close>

lemma execute_done:
  "''done'' \<notin> set exclude \<Longrightarrow>
   controller_execute (Controller_init lower prov exclude) ''done'' (DoneAction t) mtb =
     as_result (done_action t)"
  by (simp add: controller_execute_def Controller_init_def default_actions_def execute_action_def)

lemma execute_click_element:
  "''click_element'' \<notin> set exclude \<Longrightarrow>
   controller_execute (Controller_init lower prov exclude) ''click_element'' (ClickElementAction i) mtb =
     as_result (click_element prov i mtb)"
  by (simp add: controller_execute_def Controller_init_def default_actions_def execute_action_def)

lemma execute_input_text:
  "''input_text'' \<notin> set exclude \<Longrightarrow>
   controller_execute (Controller_init lower prov exclude) ''input_text'' (InputTextAction i t s) mtb =
     as_result (input_text prov i t s mtb)"
  by (simp add: controller_execute_def Controller_init_def default_actions_def execute_action_def)

lemma click_element_returns:
  "\<exists>w'. click_element prov index mtb w =
     (Inr \<lparr>is_done = False,
           extracted_content = Some (''clicked element with index '' @ str_int index),
           error = None, current_app_pid = None\<rparr>, w')"
proof (cases "element_cache mtb index")
  case None
  then show ?thesis using click_element_absent by blast
next
  case (Some el)
  then show ?thesis using click_element_present [of mtb index el prov w] by blast
qed

lemma input_text_returns:
  "\<exists>w'. input_text prov index text submit mtb w =
     (Inr \<lparr>is_done = False,
           extracted_content = Some (''input text into element with index '' @ str_int index),
           error = None, current_app_pid = None\<rparr>, w')"
proof (cases "element_cache mtb index")
  case None
  then show ?thesis using input_text_absent by blast
next
  case (Some el)
  then show ?thesis using input_text_present [of mtb index el prov "text" submit w] by blast
qed

lemma act_click_or_input_ex:
  assumes click: "\<And>i. ex ''click_element'' (ClickElementAction i) mtb = as_result (click_element prov i mtb)"
    and input: "\<And>i t s. ex ''input_text'' (InputTextAction i t s) mtb = as_result (input_text prov i t s mtb)"
    and req: "click_or_input_request a"
  shows "\<exists>w'. act ex a mtb w = (Inr (click_or_input_result a), w')"
proof -
  from req consider
    (c) i where "a = [(''click_element'', Some (ClickElementAction i))]"
  | (t) i t s where "a = [(''input_text'', Some (InputTextAction i t s))]"
    by (induction a rule: click_or_input_request.induct) auto
  then show ?thesis
  proof cases
    case c
    obtain w' where "click_element prov i mtb w =
       (Inr \<lparr>is_done = False,
           extracted_content = Some (''clicked element with index '' @ str_int i),
           error = None, current_app_pid = None\<rparr>, w')"
      using click_element_returns by blast
    with c click show ?thesis
      by (simp add: act_eq as_result_def bind_def return_def)
  next
    case t
    obtain w' where "input_text prov i t s mtb w =
       (Inr \<lparr>is_done = False,
           extracted_content = Some (''input text into element with index '' @ str_int i),
           error = None, current_app_pid = None\<rparr>, w')"
      using input_text_returns by blast
    with t input show ?thesis
      by (simp add: act_eq as_result_def bind_def return_def)
  qed
qed

lemma click_or_input_result_not_terminal:
  "click_or_input_request a \<Longrightarrow>
     error (click_or_input_result a) = None \<and> \<not> is_done (click_or_input_result a)"
  by (induction a rule: click_or_input_request.induct) auto

lemma run_sequence_click_or_input_ex:
  assumes click: "\<And>i. ex ''click_element'' (ClickElementAction i) mtb = as_result (click_element prov i mtb)"
    and input: "\<And>i t s. ex ''input_text'' (InputTextAction i t s) mtb = as_result (input_text prov i t s mtb)"
  shows "\<forall>a \<in> set actions. click_or_input_request a \<Longrightarrow>
     \<exists>w'. run_sequence terminal ex actions mtb w = (Inr (map click_or_input_result actions), w')
        \<and> dispatch_all ex actions mtb w = (Inr (map click_or_input_result actions), w')"
proof (induction actions arbitrary: w)
  case Nil
  then show ?case by (simp add: return_def)
next
  case (Cons a actions)
  have req: "click_or_input_request a" using Cons.prems by simp
  obtain w1 where a: "act ex a mtb w = (Inr (click_or_input_result a), w1)"
    using act_click_or_input_ex [of ex mtb prov a w, OF click input req] by auto
  have nt: "\<not> terminal (click_or_input_result a)"
    using click_or_input_result_not_terminal [OF req] by (simp add: terminal_def)
  obtain w' where rest:
    "run_sequence terminal ex actions mtb w1 = (Inr (map click_or_input_result actions), w')"
    "dispatch_all ex actions mtb w1 = (Inr (map click_or_input_result actions), w')"
    using Cons.IH [of w1] Cons.prems by auto
  show ?case
  proof (cases "actions = []")
    case True
    with a rest show ?thesis by (simp add: bind_def return_def)
  next
    case False
    with a nt rest show ?thesis by (simp add: bind_def return_def)
  qed
qed

section \<open>The claims about the built-in actions\<close>

text \<open>
  C7. The done action always succeeds and returns exactly the result with the given text
  as its content and is\_done set; and when the registry hands back what \<open>done\<close> returns,
  the dispatcher, given a request whose first populated entry is done with text t, yields
  that same result unchanged and leaves the world as it was.
\<close>

theorem done_action_result:
  "done_action text w =
     (Inr \<lparr>is_done = True, extracted_content = Some text, error = None,
           current_app_pid = None\<rparr>, w)
   \<and> (ex ''done'' (DoneAction text) mtb = as_result (done_action text) \<longrightarrow>
        (\<forall>(n, q) \<in> set skipped. q = None) \<longrightarrow>
        act ex (skipped @ (''done'', Some (DoneAction text)) # rest) mtb w =
          (Inr \<lparr>is_done = True, extracted_content = Some text, error = None,
                current_app_pid = None\<rparr>, w))"
proof (intro conjI impI)
  show d: "done_action text w =
     (Inr \<lparr>is_done = True, extracted_content = Some text, error = None,
           current_app_pid = None\<rparr>, w)"
    by (simp add: done_action_def return_def ActionResult_default_def)
  assume "ex ''done'' (DoneAction text) mtb = as_result (done_action text)"
    and "\<forall>(n, q) \<in> set skipped. q = None"
  then show "act ex (skipped @ (''done'', Some (DoneAction text)) # rest) mtb w =
          (Inr \<lparr>is_done = True, extracted_content = Some text, error = None,
                current_app_pid = None\<rparr>, w)"
    using d by (simp add: act_eq act_items_skip as_result_def bind_def return_def)
qed

theorem done_action_result_witness:
  "controller_act (Controller_init ascii_lower (provider_const True []) [''open_app''])
     ([(''click_element'', None)] @ (''done'', Some (DoneAction ''finished'')) # []) one_element w0 =
     (Inr \<lparr>is_done = True, extracted_content = Some ''finished'', error = None,
           current_app_pid = None\<rparr>, w0)"
proof -
  have route: "controller_execute (Controller_init ascii_lower (provider_const True []) [''open_app''])
      ''done'' (DoneAction ''finished'') one_element = as_result (done_action ''finished'')"
    by (rule execute_done) simp
  have skipped: "\<forall>(n, q) \<in> set [(''click_element'', None :: params option)]. q = None"
    by simp
  show ?thesis
    unfolding controller_act_def
    by (rule done_action_result
          [where ex = "controller_execute (Controller_init ascii_lower (provider_const True []) [''open_app''])"
             and mtb = one_element and skipped = "[(''click_element'', None)]"
             and rest = "[]" and w = w0,
           THEN conjunct2, THEN mp, THEN mp, OF route skipped])
qed

text \<open>
  C2. \<open>click_element\<close> at index 7 with an empty element cache: nothing is raised, the
  capability provider is not called, and the line "Invalid index." is printed. The
  content of the result, however, reads "clicked element with index 7": the very content
  returned when 7 is in the cache and the click succeeds, and when the click fails. So
  the content indicates neither the invalid index nor the outcome of the click, which
  the specification requires of it; \<open>input_text\<close> does the same. The action tells the
  outcome on the standard output only, whereas \<open>open_app\<close> returns its failures in the
  result.
\<close>

theorem click_element_invalid_index_run:
  "click_element (provider_const True []) 7 no_elements w0 =
     (Inr \<lparr>is_done = False, extracted_content = Some ''clicked element with index 7'',
           error = None, current_app_pid = None\<rparr>,
      \<lparr>calls = [], stdout = [cross_mark @ '' Invalid index.'']\<rparr>)
   \<and> click_element (provider_const True []) 7 one_element w0 =
     (Inr \<lparr>is_done = False, extracted_content = Some ''clicked element with index 7'',
           error = None, current_app_pid = None\<rparr>,
      \<lparr>calls = [Click ''button''],
       stdout = [''Attempting to click: button'', check_mark @ '' Click successful!'']\<rparr>)
   \<and> click_element (provider_const False []) 7 one_element w0 =
     (Inr \<lparr>is_done = False, extracted_content = Some ''clicked element with index 7'',
           error = None, current_app_pid = None\<rparr>,
      \<lparr>calls = [Click ''button''],
       stdout = [''Attempting to click: button'', cross_mark @ '' Click failed.'']\<rparr>)
   \<and> input_text (provider_const True []) 7 ''hello'' True no_elements w0 =
     (Inr \<lparr>is_done = False, extracted_content = Some ''input text into element with index 7'',
           error = None, current_app_pid = None\<rparr>,
      \<lparr>calls = [], stdout = [cross_mark @ '' Invalid index.'']\<rparr>)"
  by code_simp

text \<open>
  C3. Two runs of a controller whose capability provider answers failure to everything.
  In the first, a click at the bad index 3 and an input whose capability fails both
  return normally with no error in the result, so the sequence runner sees no failure and
  goes on to dispatch the request that follows each of them. In the second, the failed
  launch of \<open>open_app\<close> is encoded in the error of its result, and the runner halts there.
  The specification requires the first two failures to be encoded in the error as well.
\<close>

theorem failed_click_does_not_halt_run:
  "controller_multi_act (Controller_init ascii_lower (provider_const False [safari]) [])
       [[(''click_element'', Some (ClickElementAction 3))],
        [(''input_text'', Some (InputTextAction 7 ''hello'' True))],
        [(''done'', Some (DoneAction ''finished''))]] one_element w0 =
     (Inr [\<lparr>is_done = False, extracted_content = Some ''clicked element with index 3'',
             error = None, current_app_pid = None\<rparr>,
           \<lparr>is_done = False, extracted_content = Some ''input text into element with index 7'',
             error = None, current_app_pid = None\<rparr>,
           \<lparr>is_done = True, extracted_content = Some ''finished'',
             error = None, current_app_pid = None\<rparr>],
      \<lparr>calls = [TypeInto ''button'' ''hello'' True],
       stdout = [cross_mark @ '' Invalid index.'',
                 ''Attempting to input text: button'',
                 cross_mark @ '' Input failed.'']\<rparr>)
   \<and> controller_multi_act (Controller_init ascii_lower (provider_const False [safari]) [])
       [[(''open_app'', Some (OpenAppAction ''Safari''))],
        [(''done'', Some (DoneAction ''finished''))]] one_element w0 =
     (Inr [\<lparr>is_done = False,
             extracted_content = Some ''Failed to launch app: Safari (and lowercased: safari)'',
             error = Some ''Failed to launch app: Safari (and lowercased: safari)'',
             current_app_pid = None\<rparr>],
      \<lparr>calls = [LaunchApplication ''Safari'', LaunchApplication ''safari''],
       stdout =
         [CHR 0x0A # ''Launching app: Safari...'',
          cross_mark @ '' Failed to launch app with name: Safari. Trying lowercased...'',
          cross_mark @ '' Failed to launch app with lowercased name: safari'']\<rparr>)"
  by code_simp

text \<open>
  C8. Whatever the index and whatever the capability answers or raises, \<open>click_element\<close>
  and \<open>input_text\<close> return, and the result has no error and is not done. So when the
  registry hands back what these two actions return, a sequence of requests that each
  name one of them runs to exhaustion: \<open>multi_act\<close> does exactly what dispatching every
  request in order does (\<open>dispatch_all\<close>: the same results and the same world), the
  results are those of the requests, one for each, and none of them is terminal.
\<close>

theorem click_and_input_never_terminal:
  "(\<exists>w'. click_element prov index mtb w =
       (Inr \<lparr>is_done = False,
             extracted_content = Some (''clicked element with index '' @ str_int index),
             error = None, current_app_pid = None\<rparr>, w'))
   \<and> (\<exists>w'. input_text prov index text submit mtb w =
       (Inr \<lparr>is_done = False,
             extracted_content = Some (''input text into element with index '' @ str_int index),
             error = None, current_app_pid = None\<rparr>, w'))
   \<and> ((\<forall>i. ex ''click_element'' (ClickElementAction i) mtb
              = as_result (click_element prov i mtb)) \<longrightarrow>
       (\<forall>i t s. ex ''input_text'' (InputTextAction i t s) mtb
              = as_result (input_text prov i t s mtb)) \<longrightarrow>
       (\<forall>a \<in> set actions. click_or_input_request a) \<longrightarrow>
       (\<exists>rs w'. multi_act ex actions mtb w = (Inr rs, w')
          \<and> dispatch_all ex actions mtb w = (Inr rs, w')
          \<and> rs = map click_or_input_result actions
          \<and> length rs = length actions
          \<and> (\<forall>r \<in> set rs. error r = None \<and> \<not> is_done r)))"
proof (intro conjI impI)
  show "\<exists>w'. click_element prov index mtb w =
       (Inr \<lparr>is_done = False,
             extracted_content = Some (''clicked element with index '' @ str_int index),
             error = None, current_app_pid = None\<rparr>, w')"
    by (rule click_element_returns)
  show "\<exists>w'. input_text prov index text submit mtb w =
       (Inr \<lparr>is_done = False,
             extracted_content = Some (''input text into element with index '' @ str_int index),
             error = None, current_app_pid = None\<rparr>, w')"
    by (rule input_text_returns)
  assume c: "\<forall>i. ex ''click_element'' (ClickElementAction i) mtb
              = as_result (click_element prov i mtb)"
    and t: "\<forall>i t s. ex ''input_text'' (InputTextAction i t s) mtb
              = as_result (input_text prov i t s mtb)"
    and r: "\<forall>a \<in> set actions. click_or_input_request a"
  obtain w' where run:
    "run_sequence terminal ex actions mtb w = (Inr (map click_or_input_result actions), w')"
    "dispatch_all ex actions mtb w = (Inr (map click_or_input_result actions), w')"
    using run_sequence_click_or_input_ex [of ex mtb prov actions w] c t r by blast
  have nt: "\<forall>r \<in> set (map click_or_input_result actions). error r = None \<and> \<not> is_done r"
    using r click_or_input_result_not_terminal by auto
  show "\<exists>rs w'. multi_act ex actions mtb w = (Inr rs, w')
          \<and> dispatch_all ex actions mtb w = (Inr rs, w')
          \<and> rs = map click_or_input_result actions
          \<and> length rs = length actions
          \<and> (\<forall>r \<in> set rs. error r = None \<and> \<not> is_done r)"
    unfolding multi_act_run_sequence
    using run nt by simp
qed

theorem click_and_input_never_terminal_witness:
  "controller_multi_act (Controller_init ascii_lower provider_raising [])
       [[(''click_element'', Some (ClickElementAction 7))],
        [(''input_text'', Some (InputTextAction 7 ''hi'' True))],
        [(''click_element'', Some (ClickElementAction 3))]] one_element w0 =
     (Inr [\<lparr>is_done = False, extracted_content = Some ''clicked element with index 7'',
             error = None, current_app_pid = None\<rparr>,
           \<lparr>is_done = False, extracted_content = Some ''input text into element with index 7'',
             error = None, current_app_pid = None\<rparr>,
           \<lparr>is_done = False, extracted_content = Some ''clicked element with index 3'',
             error = None, current_app_pid = None\<rparr>],
      \<lparr>calls = [Click ''button'', TypeInto ''button'' ''hi'' True],
       stdout = [''Attempting to click: button'',
                 cross_mark @ '' An error occurred: no accessibility'',
                 ''Attempting to input text: button'',
                 cross_mark @ '' Invalid input. Please enter a number or 'q'.'',
                 cross_mark @ '' Invalid index.'']\<rparr>)
   \<and> dispatch_all (controller_execute (Controller_init ascii_lower provider_raising []))
       [[(''click_element'', Some (ClickElementAction 7))],
        [(''input_text'', Some (InputTextAction 7 ''hi'' True))],
        [(''click_element'', Some (ClickElementAction 3))]] one_element w0 =
     (Inr [\<lparr>is_done = False, extracted_content = Some ''clicked element with index 7'',
             error = None, current_app_pid = None\<rparr>,
           \<lparr>is_done = False, extracted_content = Some ''input text into element with index 7'',
             error = None, current_app_pid = None\<rparr>,
           \<lparr>is_done = False, extracted_content = Some ''clicked element with index 3'',
             error = None, current_app_pid = None\<rparr>],
      \<lparr>calls = [Click ''button'', TypeInto ''button'' ''hi'' True],
       stdout = [''Attempting to click: button'',
                 cross_mark @ '' An error occurred: no accessibility'',
                 ''Attempting to input text: button'',
                 cross_mark @ '' Invalid input. Please enter a number or 'q'.'',
                 cross_mark @ '' Invalid index.'']\<rparr>)"
proof -
  have c: "\<forall>i. controller_execute (Controller_init ascii_lower provider_raising []) ''click_element''
              (ClickElementAction i) one_element
            = as_result (click_element provider_raising i one_element)"
    by (simp add: execute_click_element)
  have t: "\<forall>i t s. controller_execute (Controller_init ascii_lower provider_raising []) ''input_text''
              (InputTextAction i t s) one_element
            = as_result (input_text provider_raising i t s one_element)"
    by (simp add: execute_input_text)
  have r: "\<forall>a \<in> set [[(''click_element'', Some (ClickElementAction 7))],
        [(''input_text'', Some (InputTextAction 7 ''hi'' True))],
        [(''click_element'', Some (ClickElementAction 3))]]. click_or_input_request a"
    by simp
  have "\<exists>rs w'. multi_act (controller_execute (Controller_init ascii_lower provider_raising []))
       [[(''click_element'', Some (ClickElementAction 7))],
        [(''input_text'', Some (InputTextAction 7 ''hi'' True))],
        [(''click_element'', Some (ClickElementAction 3))]] one_element w0 = (Inr rs, w')
     \<and> dispatch_all (controller_execute (Controller_init ascii_lower provider_raising []))
       [[(''click_element'', Some (ClickElementAction 7))],
        [(''input_text'', Some (InputTextAction 7 ''hi'' True))],
        [(''click_element'', Some (ClickElementAction 3))]] one_element w0 = (Inr rs, w')
     \<and> rs = map click_or_input_result
       [[(''click_element'', Some (ClickElementAction 7))],
        [(''input_text'', Some (InputTextAction 7 ''hi'' True))],
        [(''click_element'', Some (ClickElementAction 3))]]
     \<and> length rs = length
       [[(''click_element'', Some (ClickElementAction 7))],
        [(''input_text'', Some (InputTextAction 7 ''hi'' True))],
        [(''click_element'', Some (ClickElementAction 3))]]
     \<and> (\<forall>r \<in> set rs. error r = None \<and> \<not> is_done r)"
    by (rule click_and_input_never_terminal
          [where ex = "controller_execute (Controller_init ascii_lower provider_raising [])"
             and prov = provider_raising and mtb = one_element and w = w0,
           THEN conjunct2, THEN conjunct2, THEN mp, THEN mp, THEN mp, OF c t r])
  then obtain rs w' where
    m: "multi_act (controller_execute (Controller_init ascii_lower provider_raising []))
       [[(''click_element'', Some (ClickElementAction 7))],
        [(''input_text'', Some (InputTextAction 7 ''hi'' True))],
        [(''click_element'', Some (ClickElementAction 3))]] one_element w0 = (Inr rs, w')"
    and d: "dispatch_all (controller_execute (Controller_init ascii_lower provider_raising []))
       [[(''click_element'', Some (ClickElementAction 7))],
        [(''input_text'', Some (InputTextAction 7 ''hi'' True))],
        [(''click_element'', Some (ClickElementAction 3))]] one_element w0 = (Inr rs, w')"
    by blast
  have run: "controller_multi_act (Controller_init ascii_lower provider_raising [])
       [[(''click_element'', Some (ClickElementAction 7))],
        [(''input_text'', Some (InputTextAction 7 ''hi'' True))],
        [(''click_element'', Some (ClickElementAction 3))]] one_element w0 =
     (Inr [\<lparr>is_done = False, extracted_content = Some ''clicked element with index 7'',
             error = None, current_app_pid = None\<rparr>,
           \<lparr>is_done = False, extracted_content = Some ''input text into element with index 7'',
             error = None, current_app_pid = None\<rparr>,
           \<lparr>is_done = False, extracted_content = Some ''clicked element with index 3'',
             error = None, current_app_pid = None\<rparr>],
      \<lparr>calls = [Click ''button'', TypeInto ''button'' ''hi'' True],
       stdout = [''Attempting to click: button'',
                 cross_mark @ '' An error occurred: no accessibility'',
                 ''Attempting to input text: button'',
                 cross_mark @ '' Invalid input. Please enter a number or 'q'.'',
                 cross_mark @ '' Invalid index.'']\<rparr>)"
    by code_simp
  from run m d show ?thesis
    unfolding controller_multi_act_def by simp
qed

end
